theory Spec2Isabelle
  imports Complex_Main
begin

section \<open>Numeric values, errors and containers\<close>

text \<open>
  The program computes with IEEE doubles (numpy \<open>float64\<close>).  Finite doubles are
  idealised as reals (no rounding error, no overflow); the three non-finite values that the
  program produces or tests for are kept apart from them, so that \<open>np.inf\<close> and
  \<open>np.nan\<close> are never confused with a number.  Signed zeros are not distinguished.
\<close>

datatype fval = Fin real | PosInf | NegInf | NaN

text \<open>
  Exceptions of the program.  \<open>ValueError\<close> carries its message.  \<open>ShapeMismatch\<close> is the
  error numpy raises when operand dimensions do not agree, \<open>ZeroDivisionError\<close> the one
  Python raises for \<open>1.0 / 0\<close>.
\<close>

datatype error = ValueError string | ShapeMismatch | ZeroDivisionError

text \<open>
  A pandas \<open>Series\<close> of means is an ordered list of (label, value) pairs; the covariance
  \<open>DataFrame\<close> is used by position only and is a list of rows.
\<close>

type_synonym series = "(string \<times> real) list"
type_synonym matrix = "real list list"

definition TRADING_DAYS :: real where
  "TRADING_DAYS = 252"

subsection \<open>The numpy operations used by the evaluator\<close>

definition np_sqrt :: "real \<Rightarrow> fval" where
  \<comment> \<open>\<open>np.sqrt\<close> of a finite double: \<open>nan\<close> (with a warning) below zero.\<close>
  "np_sqrt x = (if x < 0 then NaN else Fin (sqrt x))"

fun f_neg :: "fval \<Rightarrow> fval" where
  "f_neg (Fin a) = Fin (- a)"
| "f_neg PosInf = NegInf"
| "f_neg NegInf = PosInf"
| "f_neg NaN = NaN"

fun f_mult :: "fval \<Rightarrow> fval \<Rightarrow> fval" where
  "f_mult NaN _ = NaN"
| "f_mult _ NaN = NaN"
| "f_mult (Fin a) (Fin b) = Fin (a * b)"
| "f_mult (Fin a) PosInf = (if a = 0 then NaN else if 0 < a then PosInf else NegInf)"
| "f_mult (Fin a) NegInf = (if a = 0 then NaN else if 0 < a then NegInf else PosInf)"
| "f_mult PosInf (Fin b) = (if b = 0 then NaN else if 0 < b then PosInf else NegInf)"
| "f_mult NegInf (Fin b) = (if b = 0 then NaN else if 0 < b then NegInf else PosInf)"
| "f_mult PosInf PosInf = PosInf"
| "f_mult PosInf NegInf = NegInf"
| "f_mult NegInf PosInf = NegInf"
| "f_mult NegInf NegInf = PosInf"

fun f_div :: "real \<Rightarrow> fval \<Rightarrow> fval" where
  \<comment> \<open>a finite double divided by a \<open>float64\<close>: numpy does not raise on a zero divisor\<close>
  "f_div a (Fin b) =
     (if b = 0 then (if a = 0 then NaN else if 0 < a then PosInf else NegInf)
      else Fin (a / b))"
| "f_div a PosInf = Fin 0"
| "f_div a NegInf = Fin 0"
| "f_div a NaN = NaN"

fun isclose0 :: "fval \<Rightarrow> bool" where
  \<comment> \<open>\<open>np.isclose(v, 0)\<close> with the defaults \<open>rtol = 1e-05\<close>, \<open>atol = 1e-08\<close>:
      \<open>|v - 0| <= atol + rtol * |0|\<close>, false for \<open>nan\<close> and the infinities\<close>
  "isclose0 (Fin a) = (\<bar>a\<bar> \<le> 1 / 10 ^ 8)"
| "isclose0 PosInf = False"
| "isclose0 NegInf = False"
| "isclose0 NaN = False"

definition dot :: "real list \<Rightarrow> real list \<Rightarrow> real" where
  \<comment> \<open>\<open>np.dot\<close> of two vectors of one length, and \<open>np.sum(a * b)\<close>\<close>
  "dot xs ys = sum_list (map2 (*) xs ys)"

definition mat_vec :: "matrix \<Rightarrow> real list \<Rightarrow> real list" where
  \<comment> \<open>\<open>np.dot(covar, weights)\<close>\<close>
  "mat_vec m v = map (\<lambda>row. dot row v) m"

section \<open>Performance evaluator\<close>

text \<open>
  The evaluator checks nothing itself; numpy raises when the operands of the two products
  do not have one dimension.  The means and the covariance come from one table of returns,
  so they always agree with each other.
\<close>

definition shapes_agree :: "real list \<Rightarrow> series \<Rightarrow> matrix \<Rightarrow> bool" where
  "shapes_agree weights mean_return covar \<longleftrightarrow>
     length mean_return = length weights \<and> length covar = length weights \<and>
     list_all (\<lambda>row. length row = length weights) covar"

definition port_performance :: "real list \<Rightarrow> series \<Rightarrow> matrix \<Rightarrow> error + (real \<times> fval)" where
  "port_performance weights mean_return covar =
     (if \<not> shapes_agree weights mean_return covar then Inl ShapeMismatch
      else
        let port_return = dot (map snd mean_return) weights * TRADING_DAYS;
            port_std = f_mult (np_sqrt (dot weights (mat_vec covar weights)))
                              (np_sqrt TRADING_DAYS)
        in Inr (port_return, port_std))"

definition negative_sharpe :: "real list \<Rightarrow> series \<Rightarrow> matrix \<Rightarrow> real \<Rightarrow> error + fval" where
  "negative_sharpe weights mean_return covar risk_free_rate =
     (case port_performance weights mean_return covar of
        Inl e \<Rightarrow> Inl e
      | Inr (port_return, port_std) \<Rightarrow>
          if isclose0 port_std then Inr PosInf
          else
            let sharpe_ratio = f_div (port_return - risk_free_rate) port_std
            in Inr (f_neg sharpe_ratio))"

definition portfolio_var :: "real list \<Rightarrow> series \<Rightarrow> matrix \<Rightarrow> error + fval" where
  "portfolio_var weights mean_return covar =
     map_sum id snd (port_performance weights mean_return covar)"

definition portfolio_return :: "real list \<Rightarrow> series \<Rightarrow> matrix \<Rightarrow> error + real" where
  "portfolio_return weights mean_return covar =
     map_sum id fst (port_performance weights mean_return covar)"

section \<open>The constrained optimiser\<close>

text \<open>
  \<open>scipy.optimize.minimize\<close> is an external library.  A call is an arbitrary function of
  what the program passes: the objective, the initial guess, the per-asset bounds and the
  equality constraints (each a function that must vanish).  It returns an
  \<open>OptimizeResult\<close>, of which the program reads \<open>x\<close>, \<open>success\<close>, \<open>message\<close> and
  \<open>fun\<close>.  Every definition below takes the solver as its first argument, so every
  theorem holds for every solver.
\<close>

record opt_result =
  res_x :: "real list"
  res_success :: bool
  res_message :: string
  res_fun :: fval

type_synonym objective = "real list \<Rightarrow> error + fval"
type_synonym constraint = "real list \<Rightarrow> error + real"
type_synonym solver =
  "objective \<Rightarrow> real list \<Rightarrow> (real \<times> real) list \<Rightarrow> constraint list \<Rightarrow> opt_result"

definition budget :: constraint where
  \<comment> \<open>\<open>lambda x: np.sum(x) - 1\<close>\<close>
  "budget xs = Inr (sum_list xs - 1)"

definition max_sharpe_ratio ::
  "solver \<Rightarrow> series \<Rightarrow> matrix \<Rightarrow> real \<Rightarrow> real \<times> real \<Rightarrow> error + opt_result" where
  "max_sharpe_ratio minimize mean_return covar risk_free_rate constraint_set =
     (let num_assets = length mean_return
      in if num_assets = 0 then Inl ZeroDivisionError
         else
           let initial_weights = replicate num_assets (1 / real num_assets);
               constraints = [budget];
               bounds = replicate num_assets constraint_set
           in Inr (minimize (\<lambda>w. negative_sharpe w mean_return covar risk_free_rate)
                     initial_weights bounds constraints))"

definition min_portfolio_var ::
  "solver \<Rightarrow> series \<Rightarrow> matrix \<Rightarrow> real \<times> real \<Rightarrow> error + opt_result" where
  "min_portfolio_var minimize mean_return covar constraint_set =
     (let num_assets = length mean_return
      in if num_assets = 0 then Inl ZeroDivisionError
         else
           let constraints = [budget];
               bounds = replicate num_assets constraint_set
           in Inr (minimize (\<lambda>w. portfolio_var w mean_return covar)
                     (replicate num_assets (1 / real num_assets)) bounds constraints))"

definition return_target :: "series \<Rightarrow> matrix \<Rightarrow> real \<Rightarrow> constraint" where
  \<comment> \<open>\<open>lambda x: portfolio_return(x, mean_return, covar) - target_return\<close>\<close>
  "return_target mean_return covar target_return xs =
     map_sum id (\<lambda>r. r - target_return) (portfolio_return xs mean_return covar)"

definition efficient_frontier ::
  "solver \<Rightarrow> series \<Rightarrow> matrix \<Rightarrow> real \<Rightarrow> real \<times> real \<Rightarrow> error + opt_result" where
  "efficient_frontier minimize mean_return covar target_return constraint_set =
     (let num_assets = length mean_return
      in if num_assets = 0 then Inl ZeroDivisionError
         else
           let constraints = [return_target mean_return covar target_return, budget];
               bounds = replicate num_assets constraint_set
           in Inr (minimize (\<lambda>w. portfolio_var w mean_return covar)
                     (replicate num_assets (1 / real num_assets)) bounds constraints))"

section \<open>Frontier sweep and result aggregation\<close>

definition linspace :: "real \<Rightarrow> real \<Rightarrow> nat \<Rightarrow> real list" where
  \<comment> \<open>\<open>np.linspace(start, stop, num)\<close>: \<open>arange(num) * step + start\<close> with
      \<open>step = (stop - start) / (num - 1)\<close>, the last sample then overwritten by \<open>stop\<close>\<close>
  "linspace start stop num =
     (let step = (stop - start) / real (num - 1);
          y = map (\<lambda>i. real i * step + start) [0..<num]
      in if 1 < num then y[num - 1 := stop] else y)"

definition round_half_even :: "real \<Rightarrow> int" where
  "round_half_even v =
     (let f = \<lfloor>v\<rfloor>; d = v - of_int f
      in if d < 1 / 2 then f else if 1 / 2 < d then f + 1
         else if even f then f else f + 1)"

definition round2 :: "real \<Rightarrow> real" where
  \<comment> \<open>\<open>round(v, 2)\<close> of a finite double: scale by 100, round half to even, scale back\<close>
  "round2 v = of_int (round_half_even (v * 100)) / 100"

fun f_round2 :: "fval \<Rightarrow> fval" where
  "f_round2 (Fin a) = Fin (round2 a)"
| "f_round2 PosInf = PosInf"
| "f_round2 NegInf = NegInf"
| "f_round2 NaN = NaN"

fun frontier_loop ::
  "solver \<Rightarrow> series \<Rightarrow> matrix \<Rightarrow> real \<times> real \<Rightarrow> real list \<Rightarrow> fval list \<Rightarrow> error + fval list"
where
  "frontier_loop minimize mean_return covar constraint_set [] ef_vols = Inr ef_vols"
| "frontier_loop minimize mean_return covar constraint_set (target # rest) ef_vols =
     (case efficient_frontier minimize mean_return covar target constraint_set of
        Inl e \<Rightarrow> Inl e
      | Inr ef_result \<Rightarrow>
          frontier_loop minimize mean_return covar constraint_set rest
            (ef_vols @ [if res_success ef_result then res_fun ef_result else NaN]))"

record outcome =
  out_opt_return :: real
  out_opt_std :: fval
  out_optimal_allocation :: series
  out_minimal_return :: real
  out_minimal_std :: fval
  out_minimal_allocation :: series
  out_ef_vols :: "fval list"
  out_target_returns :: "real list"

definition calculated_result ::
  "solver \<Rightarrow> series \<Rightarrow> matrix \<Rightarrow> real \<Rightarrow> real \<times> real \<Rightarrow> error + outcome" where
  "calculated_result minimize mean_return covar risk_free_rate constraint_set =
     (case max_sharpe_ratio minimize mean_return covar risk_free_rate constraint_set of
        Inl e \<Rightarrow> Inl e
      | Inr max_sharpe_result \<Rightarrow>
     (case min_portfolio_var minimize mean_return covar constraint_set of
        Inl e \<Rightarrow> Inl e
      | Inr min_vol_result \<Rightarrow>
     if \<not> res_success max_sharpe_result then
       Inl (ValueError (''Max Sharpe optimization failed: '' @ res_message max_sharpe_result))
     else if \<not> res_success min_vol_result then
       Inl (ValueError (''Min volatility optimization failed: '' @ res_message min_vol_result))
     else
       let optimal_weights = res_x max_sharpe_result;
           minimal_weights = res_x min_vol_result
       in
     (case port_performance optimal_weights mean_return covar of
        Inl e \<Rightarrow> Inl e
      | Inr (opt_return, opt_std) \<Rightarrow>
     (case port_performance minimal_weights mean_return covar of
        Inl e \<Rightarrow> Inl e
      | Inr (minimal_return, minimal_std) \<Rightarrow>
       let optimal_allocation = zip (map fst mean_return) optimal_weights;
           minimal_allocation = zip (map fst mean_return) minimal_weights;
           target_returns = linspace minimal_return opt_return 20
       in
     (case frontier_loop minimize mean_return covar constraint_set target_returns [] of
        Inl e \<Rightarrow> Inl e
      | Inr ef_vols \<Rightarrow>
          Inr \<lparr> out_opt_return = round2 (opt_return * 100),
                out_opt_std = f_round2 (f_mult opt_std (Fin 100)),
                out_optimal_allocation = optimal_allocation,
                out_minimal_return = round2 (minimal_return * 100),
                out_minimal_std = f_round2 (f_mult minimal_std (Fin 100)),
                out_minimal_allocation = minimal_allocation,
                out_ef_vols = ef_vols,
                out_target_returns = target_returns \<rparr>)))))"

text \<open>
  The chart.  Only the data handed to the three traces is kept: the two marker points and
  the frontier curve, whose abscissa is \<open>None\<close> (the plotting library's marker of a
  missing value, which it does not draw) where the frontier volatility is \<open>nan\<close>.
\<close>

record figure =
  max_sharpe_point :: "fval \<times> real"
  min_vol_point :: "fval \<times> real"
  ef_curve_x :: "fval option list"
  ef_curve_y :: "real list"

fun f_isnan :: "fval \<Rightarrow> bool" where
  "f_isnan NaN = True"
| "f_isnan _ = False"

definition ef_graph ::
  "solver \<Rightarrow> series \<Rightarrow> matrix \<Rightarrow> real \<Rightarrow> real \<times> real \<Rightarrow> error + figure" where
  "ef_graph minimize mean_return covar risk_free_rate constraint_set =
     (case calculated_result minimize mean_return covar risk_free_rate constraint_set of
        Inl e \<Rightarrow> Inl e
      | Inr r \<Rightarrow>
          Inr \<lparr> max_sharpe_point = (out_opt_std r, out_opt_return r),
                min_vol_point = (out_minimal_std r, out_minimal_return r),
                ef_curve_x =
                  map (\<lambda>vol. if \<not> f_isnan vol then Some (f_round2 (f_mult vol (Fin 100)))
                             else None) (out_ef_vols r),
                ef_curve_y = map (\<lambda>ret. round2 (ret * 100)) (out_target_returns r) \<rparr>)"

section \<open>Statistics loader\<close>

text \<open>
  Everything \<open>get_data\<close> does after its two argument checks goes through
  \<open>pandas_datareader\<close> and pandas.  It is a parameter: the provider answers \<open>None\<close>
  when the table of simple returns is empty and otherwise gives the column means and the
  covariance.  Dates are day numbers.
\<close>

type_synonym provider = "string list \<Rightarrow> int \<Rightarrow> int \<Rightarrow> (series \<times> matrix) option"

definition get_data :: "provider \<Rightarrow> string list \<Rightarrow> int \<Rightarrow> int \<Rightarrow> error + (series \<times> matrix)" where
  "get_data reader stocks start end =
     (if stocks = [] then Inl (ValueError ''At least one ticker is required.'')
      else if start \<ge> end then Inl (ValueError ''Start date must be earlier than end date.'')
      else case reader stocks start end of
             None \<Rightarrow> Inl (ValueError ''No return data available for the selected inputs.'')
           | Some stats \<Rightarrow> Inr stats)"

section \<open>The form: ticker parsing and the run branch\<close>

text \<open>
  Python strings are sequences of code points; here they are \<open>string\<close>s, whose
  characters are the code points below 256.  \<open>isspace\<close> is exact on that range;
  \<open>upper\<close> is exact on ASCII, and leaves every other character as it is.
\<close>

fun split_on :: "char \<Rightarrow> string \<Rightarrow> string list" where
  \<comment> \<open>\<open>s.split(sep)\<close> for a one-character separator\<close>
  "split_on sep [] = [[]]"
| "split_on sep (c # cs) =
     (if c = sep then [] # split_on sep cs
      else case split_on sep cs of
             [] \<Rightarrow> [[c]]
           | t # ts \<Rightarrow> (c # t) # ts)"

definition isspace :: "char \<Rightarrow> bool" where
  "isspace c \<longleftrightarrow> (of_char c :: nat) \<in> set [9, 10, 11, 12, 13, 28, 29, 30, 31, 32, 133, 160]"

definition strip :: "string \<Rightarrow> string" where
  "strip s = rev (dropWhile isspace (rev (dropWhile isspace s)))"

definition upper_char :: "char \<Rightarrow> char" where
  "upper_char c =
     (let n = (of_char c :: nat) in if 97 \<le> n \<and> n \<le> 122 then char_of (n - 32) else c)"

definition upper :: "string \<Rightarrow> string" where
  "upper s = map upper_char s"

definition fromkeys :: "'a list \<Rightarrow> 'a list" where
  \<comment> \<open>the keys of \<open>dict.fromkeys(ks)\<close> in the dictionary's (insertion) order:
      a key already present keeps its place\<close>
  "fromkeys ks = fold (\<lambda>k d. if k \<in> set d then d else d @ [k]) ks []"

definition parse_tickers :: "string \<Rightarrow> string list" where
  "parse_tickers raw_value =
     (let tickers = map (\<lambda>t. upper (strip t))
                      (filter (\<lambda>t. strip t \<noteq> []) (split_on (CHR '','') raw_value))
      in fromkeys tickers)"

record form =
  raw_tickers :: string
  start_date :: int
  end_date :: int
  risk_free_rate :: real
  lower_bound :: real
  upper_bound :: real
  run_clicked :: bool

text \<open>What the page shows below the form.\<close>

record results =
  metric_opt_return :: real
  metric_opt_std :: fval
  metric_min_return :: real
  metric_min_std :: fval
  chart :: figure
  display_opt :: series
  display_min :: series

datatype page = Info | ErrorBox string | Results results

fun str_of_error :: "error \<Rightarrow> string" where
  "str_of_error (ValueError m) = m"
| "str_of_error ShapeMismatch = ''shapes not aligned''"
| "str_of_error ZeroDivisionError = ''float division by zero''"

definition percent_table :: "series \<Rightarrow> series" where
  \<comment> \<open>\<open>(display["Allocation"] * 100).round(2)\<close>\<close>
  "percent_table allocation = map (\<lambda>(name, w). (name, round2 (w * 100))) allocation"

definition run_app :: "provider \<Rightarrow> solver \<Rightarrow> form \<Rightarrow> page" where
  "run_app reader minimize inp =
     (let tickers = parse_tickers (raw_tickers inp)
      in
      if run_clicked inp then
        if length tickers < 2 then ErrorBox ''Please enter at least 2 tickers.''
        else if lower_bound inp \<ge> upper_bound inp then
          ErrorBox ''Lower bound must be smaller than upper bound.''
        else
          let constraint_set = (lower_bound inp, upper_bound inp)
          in
          case get_data reader tickers (start_date inp) (end_date inp) of
            Inl exc \<Rightarrow> ErrorBox (''Optimization failed: '' @ str_of_error exc)
          | Inr (mean_return, covar) \<Rightarrow>
          (case calculated_result minimize mean_return covar (risk_free_rate inp) constraint_set of
            Inl exc \<Rightarrow> ErrorBox (''Optimization failed: '' @ str_of_error exc)
          | Inr r \<Rightarrow>
          (case ef_graph minimize mean_return covar (risk_free_rate inp) constraint_set of
            Inl exc \<Rightarrow> ErrorBox (''Optimization failed: '' @ str_of_error exc)
          | Inr fig \<Rightarrow>
              Results \<lparr> metric_opt_return = out_opt_return r,
                        metric_opt_std = out_opt_std r,
                        metric_min_return = out_minimal_return r,
                        metric_min_std = out_minimal_std r,
                        chart = fig,
                        display_opt = percent_table (out_optimal_allocation r),
                        display_min = percent_table (out_minimal_allocation r) \<rparr>))
      else Info)"

section \<open>Reference notions and sample inputs\<close>





text \<open>
  A solver to run the definitions on: it stays at the initial guess, reports the objective
  there, and converges when \<open>ok\<close> says so of that value and the number of constraints
  (one for a named portfolio, two for a frontier point).
\<close>

definition stay_solver :: "(fval \<Rightarrow> nat \<Rightarrow> bool) \<Rightarrow> solver" where
  "stay_solver ok f x0 bounds constraints =
     (let v = (case f x0 of Inl e \<Rightarrow> NaN | Inr v \<Rightarrow> v);
          conv = ok v (length constraints)
      in \<lparr> res_x = x0, res_success = conv,
            res_message = (if conv then ''Optimization terminated successfully''
                           else ''Iteration limit reached''),
            res_fun = v \<rparr>)"

definition neg_only :: "fval \<Rightarrow> nat \<Rightarrow> bool" where
  "neg_only v n = (case v of Fin a \<Rightarrow> a < 0 | _ \<Rightarrow> False)"

text \<open>
  A second solver: it searches the initial guess and a given list of candidate portfolios,
  keeps those within the bounds on which every constraint vanishes, and returns the one
  with the least objective; it reports failure when none is feasible.
\<close>

fun f_less :: "fval \<Rightarrow> fval \<Rightarrow> bool" where
  "f_less (Fin a) (Fin b) = (a < b)"
| "f_less (Fin a) PosInf = True"
| "f_less NegInf (Fin b) = True"
| "f_less NegInf PosInf = True"
| "f_less _ _ = False"

definition value_at :: "objective \<Rightarrow> real list \<Rightarrow> fval" where
  "value_at f p = (case f p of Inl e \<Rightarrow> NaN | Inr v \<Rightarrow> v)"

definition feasible :: "(real \<times> real) list \<Rightarrow> constraint list \<Rightarrow> real list \<Rightarrow> bool" where
  "feasible bounds constraints p \<longleftrightarrow>
     list_all2 (\<lambda>v (lo, hi). lo \<le> v \<and> v \<le> hi) p bounds \<and>
     list_all (\<lambda>c. c p = Inr 0) constraints"

fun best :: "objective \<Rightarrow> real list list \<Rightarrow> real list \<Rightarrow> real list" where
  "best f [] b = b"
| "best f (p # ps) b = best f ps (if f_less (value_at f p) (value_at f b) then p else b)"

definition candidate_solver :: "real list list \<Rightarrow> solver" where
  "candidate_solver cands f x0 bounds constraints =
     (case filter (feasible bounds constraints) (x0 # cands) of
        [] \<Rightarrow> \<lparr> res_x = x0, res_success = False,
                 res_message = ''Positive directional derivative for linesearch'',
                 res_fun = value_at f x0 \<rparr>
      | p # ps \<Rightarrow>
          let b = best f ps p
          in \<lparr> res_x = b, res_success = True,
                res_message = ''Optimization terminated successfully'',
                res_fun = value_at f b \<rparr>)"

definition corners :: "real list list" where
  "corners = [[1, 0], [0, 1]]"

definition wide_assets :: series where
  "wide_assets = [(''A'', 12 / 252), (''B'', 1 / 252)]"

definition wide_covar :: matrix where
  "wide_covar = [[36 / 252, 0], [0, 64 / 252]]"

definition two_assets :: series where
  "two_assets = [(''A'', 1 / 252), (''B'', 2 / 252)]"

definition two_covar :: matrix where
  "two_covar = [[4 / 252, 0], [0, 4 / 252]]"

text \<open>A provider that answers every request with the same statistics, and a filled form.\<close>

definition fixed_reader :: "series \<times> matrix \<Rightarrow> provider" where
  "fixed_reader stats stocks start end = Some stats"

definition sample_form :: form where
  "sample_form = \<lparr> raw_tickers = ''a, b'', start_date = 0, end_date = 365,
                     risk_free_rate = 1 / 50, lower_bound = 0, upper_bound = 1,
                     run_clicked = True \<rparr>"

section \<open>Properties of the performance evaluator\<close>

lemma dot_nth:
  "length xs = length ys \<Longrightarrow> dot xs ys = (\<Sum>i<length xs. xs ! i * ys ! i)"
proof -
  assume len: "length xs = length ys"
  have "dot xs ys = (\<Sum>i = 0..<length (map2 (*) xs ys). map2 (*) xs ys ! i)"
    unfolding dot_def by (rule sum_list_sum_nth)
  also have "\<dots> = (\<Sum>i = 0..<length xs. xs ! i * ys ! i)"
    using len by (intro sum.cong) auto
  finally show ?thesis by (simp add: lessThan_atLeast0)
qed

lemma quad_form_nth:
  assumes "length covar = length w" "\<forall>row\<in>set covar. length row = length w"
  shows "dot w (mat_vec covar w) = (\<Sum>i<length w. \<Sum>j<length w. w ! i * covar ! i ! j * w ! j)"
proof -
  have "dot w (mat_vec covar w) = (\<Sum>i<length w. w ! i * mat_vec covar w ! i)"
    using assms by (simp add: dot_nth mat_vec_def)
  also have "\<dots> = (\<Sum>i<length w. w ! i * (\<Sum>j<length w. covar ! i ! j * w ! j))"
  proof (rule sum.cong[OF refl])
    fix i assume "i \<in> {..<length w}"
    then have i: "i < length covar" using assms by simp
    then have "length (covar ! i) = length w" using assms by simp
    then show "w ! i * mat_vec covar w ! i = w ! i * (\<Sum>j<length w. covar ! i ! j * w ! j)"
      using i by (simp add: mat_vec_def dot_nth)
  qed
  also have "\<dots> = (\<Sum>i<length w. \<Sum>j<length w. w ! i * covar ! i ! j * w ! j)"
    by (simp add: sum_distrib_left mult.assoc)
  finally show ?thesis .
qed

text \<open>
  Claim C1.  For weights \<open>w\<close>, means \<open>mu\<close> and a covariance matrix \<open>C\<close> that all have
  dimension \<open>N\<close>, \<open>port_performance\<close> returns the annualized return
  \<open>(\<Sum>i. mu\<^sub>i w\<^sub>i) \<times> 252\<close> and the annualized volatility
  \<open>sqrt (\<Sum>i j. w\<^sub>i C\<^sub>i\<^sub>j w\<^sub>j) \<times> sqrt 252\<close>.  The radicand of a covariance matrix is never
  negative; for a matrix that is not positive semidefinite and a \<open>w\<close> with a negative
  radicand, numpy's square root is \<open>nan\<close>.
\<close>

theorem port_performance_formula:
  assumes "length w = N" "length mu = N" "length C = N"
    and "\<forall>row\<in>set C. length row = N"
  shows "port_performance w mu C =
           Inr ((\<Sum>i<N. snd (mu ! i) * w ! i) * 252,
                let q = (\<Sum>i<N. \<Sum>j<N. w ! i * C ! i ! j * w ! j)
                in if 0 \<le> q then Fin (sqrt q * sqrt 252) else NaN)"
proof -
  have sh: "shapes_agree w mu C"
    using assms by (simp add: shapes_agree_def list_all_iff)
  have r: "dot (map snd mu) w = (\<Sum>i<N. snd (mu ! i) * w ! i)"
    using assms by (simp add: dot_nth)
  have q: "dot w (mat_vec C w) = (\<Sum>i<N. \<Sum>j<N. w ! i * C ! i ! j * w ! j)"
    using quad_form_nth[of C w] assms by simp
  show ?thesis
    unfolding port_performance_def Let_def using sh
    by (simp add: r q TRADING_DAYS_def np_sqrt_def)
qed

theorem port_performance_formula_witness:
  "length [1, 0 :: real] = 2 \<and> length [(''A'', 1 / 252 :: real), (''B'', 2 / 252)] = 2 \<and>
   length [[4 / 252, 0], [0, 9 / 252 :: real]] = 2 \<and>
   port_performance [1, 0] [(''A'', 1 / 252), (''B'', 2 / 252)] [[4 / 252, 0], [0, 9 / 252]]
     = Inr (1, Fin 2)"
proof -
  have s: "sqrt (4 / 252) * sqrt 252 = 2"
    by (simp add: real_sqrt_mult[symmetric])
  show ?thesis
    using port_performance_formula[of "[1, 0]" 2 "[(''A'', 1 / 252), (''B'', 2 / 252)]"
        "[[4 / 252, 0], [0, 9 / 252]]"] s
    by (simp add: lessThan_Suc numeral_2_eq_2)
qed

lemma two_assets_guess:
  "two_assets \<noteq> []"
  "replicate (length two_assets) (1 / real (length two_assets)) = [1 / 2, 1 / 2]"
  by (simp_all add: two_assets_def numeral_2_eq_2)

lemma port_performance_half:
  "port_performance [1 / 2, 1 / 2] two_assets two_covar = Inr (3 / 2, Fin (sqrt 2))"
proof -
  have "sqrt (2 / 252) * sqrt 252 = sqrt 2" by (simp add: real_sqrt_mult[symmetric])
  then show ?thesis
    by (simp add: port_performance_def shapes_agree_def two_assets_def two_covar_def dot_def
        mat_vec_def TRADING_DAYS_def np_sqrt_def)
qed

lemma port_performance_first:
  "port_performance [1, 0] two_assets two_covar = Inr (1, Fin 2)"
proof -
  have "sqrt (4 / 252) * sqrt 252 = 2" by (simp add: real_sqrt_mult[symmetric])
  then show ?thesis
    by (simp add: port_performance_def shapes_agree_def two_assets_def two_covar_def dot_def
        mat_vec_def TRADING_DAYS_def np_sqrt_def)
qed

lemma sqrt2_not_close: "\<not> isclose0 (Fin (sqrt 2))"
proof -
  have "1 \<le> sqrt 2" by simp
  then have "\<not> sqrt 2 * 100000000 \<le> 1" by linarith
  then show ?thesis by simp
qed

lemma negative_sharpe_half:
  "negative_sharpe [1 / 2, 1 / 2] two_assets two_covar (1 / 50) = Inr (Fin (- (37 / 25 / sqrt 2)))"
  using sqrt2_not_close by (simp add: negative_sharpe_def port_performance_half)

lemma portfolio_var_half:
  "portfolio_var [1 / 2, 1 / 2] two_assets two_covar = Inr (Fin (sqrt 2))"
  by (simp add: portfolio_var_def port_performance_half)

section \<open>Properties of the negative Sharpe objective\<close>

text \<open>
  Claim C2.  Whatever the weights, statistics and risk-free rate, once the evaluator has
  returned the annualized return \<open>ret\<close> and volatility \<open>std\<close>: if \<open>std\<close> is within
  \<open>1e-8\<close> of zero (numpy's \<open>isclose\<close> with its default tolerances), \<open>negative_sharpe\<close>
  returns positive infinity and nothing is divided; otherwise it returns
  \<open>- (ret - rf) / std\<close>.
\<close>

theorem negative_sharpe_guard:
  assumes "port_performance w mu C = Inr (ret, std)"
  shows "(\<forall>v. std = Fin v \<and> \<bar>v\<bar> \<le> 1 / 10 ^ 8 \<longrightarrow> negative_sharpe w mu C rf = Inr PosInf) \<and>
         (\<forall>v. std = Fin v \<and> 1 / 10 ^ 8 < \<bar>v\<bar> \<longrightarrow>
              negative_sharpe w mu C rf = Inr (Fin (- ((ret - rf) / v)))) \<and>
         (isclose0 std \<longrightarrow> negative_sharpe w mu C rf = Inr PosInf) \<and>
         (\<not> isclose0 std \<longrightarrow> negative_sharpe w mu C rf = Inr (f_neg (f_div (ret - rf) std)))"
  using assms by (auto simp: negative_sharpe_def)

theorem negative_sharpe_guard_witness:
  "port_performance [1 / 2, 1 / 2] two_assets [[1, - 1], [- 1, 1]] = Inr (3 / 2, Fin 0) \<and>
   negative_sharpe [1 / 2, 1 / 2] two_assets [[1, - 1], [- 1, 1]] (1 / 50) = Inr PosInf \<and>
   port_performance [1, 0] two_assets two_covar = Inr (1, Fin 2) \<and>
   negative_sharpe [1, 0] two_assets two_covar (1 / 50) = Inr (Fin (- (49 / 100)))"
proof -
  have p0: "port_performance [1 / 2, 1 / 2] two_assets [[1, - 1], [- 1, 1]] = Inr (3 / 2, Fin 0)"
    by (simp add: port_performance_def shapes_agree_def two_assets_def dot_def mat_vec_def
        TRADING_DAYS_def np_sqrt_def)
  note p1 = port_performance_first
  show ?thesis
    using negative_sharpe_guard[OF p0, of "1 / 50"] negative_sharpe_guard[OF p1, of "1 / 50"] p0 p1
    by simp
qed

section \<open>The solver calls\<close>

lemma max_sharpe_ratio_call:
  "mu \<noteq> [] \<Longrightarrow>
   max_sharpe_ratio m mu C rf cs =
     Inr (m (\<lambda>w. negative_sharpe w mu C rf) (replicate (length mu) (1 / real (length mu)))
            (replicate (length mu) cs) [budget])"
  by (simp add: max_sharpe_ratio_def Let_def)

lemma min_portfolio_var_call:
  "mu \<noteq> [] \<Longrightarrow>
   min_portfolio_var m mu C cs =
     Inr (m (\<lambda>w. portfolio_var w mu C) (replicate (length mu) (1 / real (length mu)))
            (replicate (length mu) cs) [budget])"
  by (simp add: min_portfolio_var_def Let_def)

lemma efficient_frontier_call:
  "mu \<noteq> [] \<Longrightarrow>
   efficient_frontier m mu C t cs =
     Inr (m (\<lambda>w. portfolio_var w mu C) (replicate (length mu) (1 / real (length mu)))
            (replicate (length mu) cs) [return_target mu C t, budget])"
  by (simp add: efficient_frontier_def Let_def)

lemma frontier_loop_map:
  "mu \<noteq> [] \<Longrightarrow>
   frontier_loop m mu C cs ts acc =
     Inr (acc @ map (\<lambda>t. let sol = m (\<lambda>w. portfolio_var w mu C)
                                  (replicate (length mu) (1 / real (length mu)))
                                  (replicate (length mu) cs) [return_target mu C t, budget]
                       in if res_success sol then res_fun sol else NaN) ts)"
  by (induction ts arbitrary: acc) (simp_all add: efficient_frontier_call Let_def)

lemma length_linspace: "length (linspace a b n) = n"
  by (simp add: linspace_def Let_def)

lemma nth_linspace:
  assumes "i < n"
  shows "linspace a b n ! i = a + real i * ((b - a) / real (n - 1))"
proof (cases "i = n - 1 \<and> 1 < n")
  case True
  then have "linspace a b n ! i = b"
    using assms by (simp add: linspace_def Let_def)
  moreover have "a + real i * ((b - a) / real (n - 1)) = b"
    using True by simp
  ultimately show ?thesis by simp
next
  case False
  then show ?thesis using assms
    by (auto simp: linspace_def Let_def)
qed

lemma calculated_result_Inr:
  assumes "calculated_result m mu C rf cs = Inr r"
  obtains msr mvr ro so rm sm vols where
    "mu \<noteq> []"
    "max_sharpe_ratio m mu C rf cs = Inr msr" "min_portfolio_var m mu C cs = Inr mvr"
    "res_success msr" "res_success mvr"
    "port_performance (res_x msr) mu C = Inr (ro, so)"
    "port_performance (res_x mvr) mu C = Inr (rm, sm)"
    "frontier_loop m mu C cs (linspace rm ro 20) [] = Inr vols"
    "r = \<lparr> out_opt_return = round2 (ro * 100),
           out_opt_std = f_round2 (f_mult so (Fin 100)),
           out_optimal_allocation = zip (map fst mu) (res_x msr),
           out_minimal_return = round2 (rm * 100),
           out_minimal_std = f_round2 (f_mult sm (Fin 100)),
           out_minimal_allocation = zip (map fst mu) (res_x mvr),
           out_ef_vols = vols,
           out_target_returns = linspace rm ro 20 \<rparr>"
proof -
  from assms have ne: "mu \<noteq> []"
    by (auto simp: calculated_result_def max_sharpe_ratio_def Let_def split: if_splits)
  from assms obtain msr where 1: "max_sharpe_ratio m mu C rf cs = Inr msr"
    by (cases "max_sharpe_ratio m mu C rf cs") (auto simp: calculated_result_def)
  from assms 1 obtain mvr where 2: "min_portfolio_var m mu C cs = Inr mvr"
    by (cases "min_portfolio_var m mu C cs") (auto simp: calculated_result_def)
  from assms 1 2 have 3: "res_success msr" "res_success mvr"
    by (auto simp: calculated_result_def split: if_splits)
  from assms 1 2 3 obtain ro so where 4: "port_performance (res_x msr) mu C = Inr (ro, so)"
    by (cases "port_performance (res_x msr) mu C") (auto simp: calculated_result_def)
  from assms 1 2 3 4 obtain rm sm where 5: "port_performance (res_x mvr) mu C = Inr (rm, sm)"
    by (cases "port_performance (res_x mvr) mu C") (auto simp: calculated_result_def)
  from assms 1 2 3 4 5 obtain vols where
    6: "frontier_loop m mu C cs (linspace rm ro 20) [] = Inr vols"
    by (cases "frontier_loop m mu C cs (linspace rm ro 20) []")
       (auto simp: calculated_result_def Let_def)
  from assms 1 2 3 4 5 6 have "r = \<lparr> out_opt_return = round2 (ro * 100),
           out_opt_std = f_round2 (f_mult so (Fin 100)),
           out_optimal_allocation = zip (map fst mu) (res_x msr),
           out_minimal_return = round2 (rm * 100),
           out_minimal_std = f_round2 (f_mult sm (Fin 100)),
           out_minimal_allocation = zip (map fst mu) (res_x mvr),
           out_ef_vols = vols,
           out_target_returns = linspace rm ro 20 \<rparr>"
    by (simp add: calculated_result_def Let_def)
  with ne 1 2 3 4 5 6 show thesis by (rule that)
qed

section \<open>Failure of a named-portfolio solve\<close>

text \<open>
  Claim C3.  When the Maximum Sharpe and the Minimum Volatility solves have both returned
  their reports and one of them says it did not converge, \<open>calculated_result\<close> raises one
  \<open>ValueError\<close> whose text names the portfolio and carries the solver's message (the
  Maximum Sharpe one when both failed), and returns no output: neither the other portfolio
  nor any frontier point.
\<close>

theorem calculated_result_solver_failure:
  assumes "max_sharpe_ratio m mu C rf cs = Inr msr"
    and "min_portfolio_var m mu C cs = Inr mvr"
  shows "(\<not> res_success msr \<longrightarrow>
            calculated_result m mu C rf cs =
              Inl (ValueError (''Max Sharpe optimization failed: '' @ res_message msr))) \<and>
         (res_success msr \<and> \<not> res_success mvr \<longrightarrow>
            calculated_result m mu C rf cs =
              Inl (ValueError (''Min volatility optimization failed: '' @ res_message mvr))) \<and>
         (\<not> res_success msr \<or> \<not> res_success mvr \<longrightarrow>
            (\<forall>r. calculated_result m mu C rf cs \<noteq> Inr r))"
  using assms by (simp add: calculated_result_def)

theorem calculated_result_solver_failure_witness:
  "calculated_result (stay_solver (\<lambda>v n. False)) two_assets two_covar (1 / 50) (0, 1) =
     Inl (ValueError ''Max Sharpe optimization failed: Iteration limit reached'') \<and>
   calculated_result (stay_solver neg_only) two_assets two_covar (1 / 50) (0, 1) =
     Inl (ValueError ''Min volatility optimization failed: Iteration limit reached'')"
proof -
  let ?s = "stay_solver (\<lambda>v n. False)" and ?t = "stay_solver neg_only"
  note calls = max_sharpe_ratio_call[OF two_assets_guess(1)]
    min_portfolio_var_call[OF two_assets_guess(1)]
  have a: "calculated_result ?s two_assets two_covar (1 / 50) (0, 1) =
     Inl (ValueError ''Max Sharpe optimization failed: Iteration limit reached'')"
    using calculated_result_solver_failure[OF calls(1) calls(2),
        where m = ?s and rf = "1 / 50" and cs = "(0, 1)" and C = two_covar]
    by (simp add: stay_solver_def)
  have b: "calculated_result ?t two_assets two_covar (1 / 50) (0, 1) =
     Inl (ValueError ''Min volatility optimization failed: Iteration limit reached'')"
    using calculated_result_solver_failure[OF calls(1) calls(2),
        where m = ?t and rf = "1 / 50" and cs = "(0, 1)" and C = two_covar]
    by (simp add: stay_solver_def two_assets_guess(2) negative_sharpe_half portfolio_var_half
        neg_only_def)
  from a b show ?thesis by simp
qed

section \<open>Successful runs and the sample portfolios\<close>

lemma portfolio_return_Inr:
  "port_performance w mu C = Inr (r, s) \<Longrightarrow> portfolio_return w mu C = Inr r"
  by (simp add: portfolio_return_def)

lemma budget_zero: "budget xs = Inr 0 \<longleftrightarrow> sum_list xs = 1"
  by (auto simp: budget_def)

lemma return_target_zero:
  "return_target mu C t xs = Inr 0 \<longleftrightarrow> portfolio_return xs mu C = Inr t"
  by (cases "portfolio_return xs mu C") (auto simp: return_target_def)


lemma calculated_result_success:
  assumes "mu \<noteq> []"
    and "max_sharpe_ratio m mu C rf cs = Inr msr" "min_portfolio_var m mu C cs = Inr mvr"
    and "res_success msr" "res_success mvr"
    and "port_performance (res_x msr) mu C = Inr (ro, so)"
    and "port_performance (res_x mvr) mu C = Inr (rm, sm)"
  shows "calculated_result m mu C rf cs =
     Inr \<lparr> out_opt_return = round2 (ro * 100),
           out_opt_std = f_round2 (f_mult so (Fin 100)),
           out_optimal_allocation = zip (map fst mu) (res_x msr),
           out_minimal_return = round2 (rm * 100),
           out_minimal_std = f_round2 (f_mult sm (Fin 100)),
           out_minimal_allocation = zip (map fst mu) (res_x mvr),
           out_ef_vols =
             map (\<lambda>t. let sol = m (\<lambda>w. portfolio_var w mu C)
                                  (replicate (length mu) (1 / real (length mu)))
                                  (replicate (length mu) cs) [return_target mu C t, budget]
                       in if res_success sol then res_fun sol else NaN) (linspace rm ro 20),
           out_target_returns = linspace rm ro 20 \<rparr>"
  using assms by (simp add: calculated_result_def frontier_loop_map Let_def)

lemma sqrt_squares: "sqrt 25 = 5" "sqrt 36 = 6" "sqrt 64 = 8"
proof -
  have "sqrt (5\<^sup>2) = 5" "sqrt (6\<^sup>2) = 6" "sqrt (8\<^sup>2) = 8"
    by (simp_all only: real_sqrt_abs abs_numeral)
  then show "sqrt 25 = 5" "sqrt 36 = 6" "sqrt 64 = 8" by simp_all
qed

lemma wide_assets_guess:
  "wide_assets \<noteq> []" "length wide_assets = 2"
  "replicate (length wide_assets) (1 / real (length wide_assets)) = [1 / 2, 1 / 2]"
  by (simp_all add: wide_assets_def numeral_2_eq_2)

lemma wide_performance:
  "port_performance [1 / 2, 1 / 2] wide_assets wide_covar = Inr (13 / 2, Fin 5)"
  "port_performance [1, 0] wide_assets wide_covar = Inr (12, Fin 6)"
  "port_performance [0, 1] wide_assets wide_covar = Inr (1, Fin 8)"
proof -
  have "sqrt (25 / 252) * sqrt 252 = 5" "sqrt (36 / 252) * sqrt 252 = 6"
    "sqrt (64 / 252) * sqrt 252 = 8"
    by (simp_all add: real_sqrt_mult[symmetric] sqrt_squares)
  then show "port_performance [1 / 2, 1 / 2] wide_assets wide_covar = Inr (13 / 2, Fin 5)"
    "port_performance [1, 0] wide_assets wide_covar = Inr (12, Fin 6)"
    "port_performance [0, 1] wide_assets wide_covar = Inr (1, Fin 8)"
    by (simp_all add: port_performance_def shapes_agree_def wide_assets_def wide_covar_def
        dot_def mat_vec_def TRADING_DAYS_def np_sqrt_def)
qed

lemma wide_feasible:
  "filter (feasible (replicate (length wide_assets) (0, 1)) [budget]) ([1 / 2, 1 / 2] # corners)
     = [[1 / 2, 1 / 2], [1, 0], [0, 1]]"
  by (simp add: feasible_def budget_def corners_def wide_assets_guess(2) numeral_2_eq_2)

lemma candidate_solver_found:
  "filter (feasible bounds cons) (x0 # cands) = p # ps \<Longrightarrow>
   candidate_solver cands f x0 bounds cons =
     \<lparr> res_x = best f ps p, res_success = True,
       res_message = ''Optimization terminated successfully'',
       res_fun = value_at f (best f ps p) \<rparr>"
  by (simp add: candidate_solver_def Let_def del: filter.simps)

lemma candidate_solver_none:
  "filter (feasible bounds cons) (x0 # cands) = [] \<Longrightarrow>
   candidate_solver cands f x0 bounds cons =
     \<lparr> res_x = x0, res_success = False,
       res_message = ''Positive directional derivative for linesearch'',
       res_fun = value_at f x0 \<rparr>"
  by (simp add: candidate_solver_def del: filter.simps)

lemma wide_sharpe_values:
  "value_at (\<lambda>w. negative_sharpe w wide_assets wide_covar (1 / 50)) [1 / 2, 1 / 2]
     = Fin (- (162 / 125))"
  "value_at (\<lambda>w. negative_sharpe w wide_assets wide_covar (1 / 50)) [1, 0] = Fin (- (599 / 300))"
  "value_at (\<lambda>w. negative_sharpe w wide_assets wide_covar (1 / 50)) [0, 1] = Fin (- (49 / 400))"
  by (simp_all add: value_at_def negative_sharpe_def wide_performance)

lemma wide_vol_values:
  "value_at (\<lambda>w. portfolio_var w wide_assets wide_covar) [1 / 2, 1 / 2] = Fin 5"
  "value_at (\<lambda>w. portfolio_var w wide_assets wide_covar) [1, 0] = Fin 6"
  "value_at (\<lambda>w. portfolio_var w wide_assets wide_covar) [0, 1] = Fin 8"
  by (simp_all add: value_at_def portfolio_var_def wide_performance)

lemma wide_max_sharpe:
  "max_sharpe_ratio (candidate_solver corners) wide_assets wide_covar (1 / 50) (0, 1) =
     Inr \<lparr> res_x = [1, 0], res_success = True,
           res_message = ''Optimization terminated successfully'',
           res_fun = Fin (- (599 / 300)) \<rparr>"
  unfolding max_sharpe_ratio_call[OF wide_assets_guess(1)] wide_assets_guess(3)
    candidate_solver_found[OF wide_feasible]
  by (simp add: wide_sharpe_values)

lemma wide_min_vol:
  "min_portfolio_var (candidate_solver corners) wide_assets wide_covar (0, 1) =
     Inr \<lparr> res_x = [1 / 2, 1 / 2], res_success = True,
           res_message = ''Optimization terminated successfully'',
           res_fun = Fin 5 \<rparr>"
  unfolding min_portfolio_var_call[OF wide_assets_guess(1)] wide_assets_guess(3)
    candidate_solver_found[OF wide_feasible]
  by (simp add: wide_vol_values)

lemma wide_returns:
  "portfolio_return [1 / 2, 1 / 2] wide_assets wide_covar = Inr (13 / 2)"
  "portfolio_return [1, 0] wide_assets wide_covar = Inr 12"
  "portfolio_return [0, 1] wide_assets wide_covar = Inr 1"
  by (simp_all add: portfolio_return_def wide_performance)

lemma wide_result:
  "calculated_result (candidate_solver corners) wide_assets wide_covar (1 / 50) (0, 1) =
     Inr \<lparr> out_opt_return = round2 (12 * 100),
           out_opt_std = f_round2 (f_mult (Fin 6) (Fin 100)),
           out_optimal_allocation = zip (map fst wide_assets) [1, 0],
           out_minimal_return = round2 (13 / 2 * 100),
           out_minimal_std = f_round2 (f_mult (Fin 5) (Fin 100)),
           out_minimal_allocation = zip (map fst wide_assets) [1 / 2, 1 / 2],
           out_ef_vols =
             map (\<lambda>t. let sol = candidate_solver corners (\<lambda>w. portfolio_var w wide_assets wide_covar)
                                  [1 / 2, 1 / 2]
                                  (replicate (length wide_assets) (0, 1))
                                  [return_target wide_assets wide_covar t, budget]
                       in if res_success sol then res_fun sol else NaN) (linspace (13 / 2) 12 20),
           out_target_returns = linspace (13 / 2) 12 20 \<rparr>"
proof -
  let ?msr = "\<lparr> res_x = [1, 0], res_success = True,
                res_message = ''Optimization terminated successfully'',
                res_fun = Fin (- (599 / 300)) \<rparr>"
  let ?mvr = "\<lparr> res_x = [1 / 2, 1 / 2], res_success = True,
                res_message = ''Optimization terminated successfully'',
                res_fun = Fin 5 \<rparr>"
  have ok: "res_success ?msr" "res_success ?mvr" by simp_all
  have po: "port_performance (res_x ?msr) wide_assets wide_covar = Inr (12, Fin 6)"
    by (simp add: wide_performance)
  have pm: "port_performance (res_x ?mvr) wide_assets wide_covar = Inr (13 / 2, Fin 5)"
    by (simp add: wide_performance)
  show ?thesis
    using calculated_result_success[OF wide_assets_guess(1) wide_max_sharpe wide_min_vol ok po pm]
    by (simp add: wide_assets_guess(3))
qed


section \<open>The frontier sweep\<close>

text \<open>
  Claim C4.  Whenever \<open>calculated_result\<close> returns, the frontier has exactly 20 target
  returns, evenly spaced from the Minimum Volatility portfolio's annualized return (the
  first) to the Maximum Sharpe portfolio's (the last), all equal when the two returns are
  equal.  For each target the solver is called once, on the volatility objective, from the
  equal-weight guess, under the same per-asset bounds, with two equality constraints: the
  first vanishes exactly when the annualized return of the weights is the target, the
  second exactly when the weights sum to 1.
\<close>

theorem frontier_targets_and_solves:
  assumes "calculated_result m mu C rf cs = Inr r"
  shows "\<exists>msr mvr ret_max ret_min.
     max_sharpe_ratio m mu C rf cs = Inr msr \<and> min_portfolio_var m mu C cs = Inr mvr \<and>
     portfolio_return (res_x msr) mu C = Inr ret_max \<and>
     portfolio_return (res_x mvr) mu C = Inr ret_min \<and>
     length (out_target_returns r) = 20 \<and> length (out_ef_vols r) = 20 \<and>
     out_target_returns r ! 0 = ret_min \<and> out_target_returns r ! 19 = ret_max \<and>
     (\<forall>i<20. out_target_returns r ! i = ret_min + real i * ((ret_max - ret_min) / 19)) \<and>
     (ret_min = ret_max \<longrightarrow> (\<forall>i<20. out_target_returns r ! i = ret_min)) \<and>
     (\<forall>i<20. let t = out_target_returns r ! i;
                  sol = m (\<lambda>w. portfolio_var w mu C)
                          (replicate (length mu) (1 / real (length mu)))
                          (replicate (length mu) cs) [return_target mu C t, budget]
              in efficient_frontier m mu C t cs = Inr sol \<and>
                 out_ef_vols r ! i = (if res_success sol then res_fun sol else NaN)) \<and>
     (\<forall>xs. budget xs = Inr 0 \<longleftrightarrow> sum_list xs = 1) \<and>
     (\<forall>xs t. return_target mu C t xs = Inr 0 \<longleftrightarrow> portfolio_return xs mu C = Inr t) \<and>
     (\<forall>w. portfolio_var w mu C = map_sum id snd (port_performance w mu C))"
proof -
  from assms obtain msr mvr ro so rm sm vols where
    ne: "mu \<noteq> []"
    and ms: "max_sharpe_ratio m mu C rf cs = Inr msr"
    and mv: "min_portfolio_var m mu C cs = Inr mvr"
    and po: "port_performance (res_x msr) mu C = Inr (ro, so)"
    and pm: "port_performance (res_x mvr) mu C = Inr (rm, sm)"
    and fl: "frontier_loop m mu C cs (linspace rm ro 20) [] = Inr vols"
    and r: "out_ef_vols r = vols" "out_target_returns r = linspace rm ro 20"
    by (rule calculated_result_Inr) simp
  let ?sol = "\<lambda>t. m (\<lambda>w. portfolio_var w mu C) (replicate (length mu) (1 / real (length mu)))
                      (replicate (length mu) cs) [return_target mu C t, budget]"
  have vols: "vols = map (\<lambda>t. if res_success (?sol t) then res_fun (?sol t) else NaN)
                        (linspace rm ro 20)"
    using fl frontier_loop_map[OF ne, of m C cs "linspace rm ro 20" "[]"] by (simp add: Let_def)
  have nth: "linspace rm ro 20 ! i = rm + real i * ((ro - rm) / 19)" if "i < 20" for i
    using nth_linspace[OF that, of rm ro] by simp
  have t0: "out_target_returns r ! 0 = rm"
    using nth[of 0] r by simp
  have t19: "out_target_returns r ! 19 = ro"
    using nth[of 19] r by (simp add: field_simps)
  have tall: "\<forall>i<20. out_target_returns r ! i = rm + real i * ((ro - rm) / 19)"
    using nth r by simp
  have same: "rm = ro \<longrightarrow> (\<forall>i<20. out_target_returns r ! i = rm)"
    using tall by simp
  have sols: "\<forall>i<20. let t = out_target_returns r ! i; sol = ?sol t
              in efficient_frontier m mu C t cs = Inr sol \<and>
                 out_ef_vols r ! i = (if res_success sol then res_fun sol else NaN)"
    using r vols by (simp add: Let_def efficient_frontier_call[OF ne] length_linspace)
  have lens: "length (out_target_returns r) = 20" "length (out_ef_vols r) = 20"
    using r vols by (simp_all add: length_linspace)
  have pv: "\<forall>w. portfolio_var w mu C = map_sum id snd (port_performance w mu C)"
    by (simp add: portfolio_var_def)
  show ?thesis
    using ms mv portfolio_return_Inr[OF po] portfolio_return_Inr[OF pm] lens t0 t19 tall same
      sols pv budget_zero return_target_zero
    by blast
qed

theorem frontier_targets_and_solves_witness:
  "\<exists>r. calculated_result (candidate_solver corners) wide_assets wide_covar (1 / 50) (0, 1) = Inr r \<and>
       length (out_target_returns r) = 20 \<and>
       out_target_returns r ! 0 = 13 / 2 \<and> out_target_returns r ! 1 = 129 / 19 \<and>
       out_target_returns r ! 19 = 12"
proof -
  obtain r where
    r: "calculated_result (candidate_solver corners) wide_assets wide_covar (1 / 50) (0, 1) = Inr r"
    using wide_result by blast
  from frontier_targets_and_solves[OF r] obtain msr mvr ret_max ret_min where
    s: "max_sharpe_ratio (candidate_solver corners) wide_assets wide_covar (1 / 50) (0, 1) = Inr msr"
      "min_portfolio_var (candidate_solver corners) wide_assets wide_covar (0, 1) = Inr mvr"
      "portfolio_return (res_x msr) wide_assets wide_covar = Inr ret_max"
      "portfolio_return (res_x mvr) wide_assets wide_covar = Inr ret_min"
    and t: "length (out_target_returns r) = 20"
      "\<forall>i<20. out_target_returns r ! i = ret_min + real i * ((ret_max - ret_min) / 19)"
    by blast
  from s have "ret_max = 12" "ret_min = 13 / 2"
    unfolding wide_max_sharpe wide_min_vol by (auto simp: wide_returns)
  with t have "out_target_returns r ! 0 = 13 / 2" "out_target_returns r ! 1 = 129 / 19"
    "out_target_returns r ! 19 = 12"
    by simp_all
  with r t(1) show ?thesis by blast
qed

section \<open>Order of the target returns\<close>









section \<open>Infeasible frontier points\<close>

lemma ef_graph_Inr:
  "calculated_result m mu C rf cs = Inr r \<Longrightarrow>
   ef_graph m mu C rf cs =
     Inr \<lparr> max_sharpe_point = (out_opt_std r, out_opt_return r),
           min_vol_point = (out_minimal_std r, out_minimal_return r),
           ef_curve_x = map (\<lambda>vol. if \<not> f_isnan vol then Some (f_round2 (f_mult vol (Fin 100)))
                                   else None) (out_ef_vols r),
           ef_curve_y = map (\<lambda>ret. round2 (ret * 100)) (out_target_returns r) \<rparr>"
  by (simp add: ef_graph_def)

lemma f_isnan_iff: "f_isnan v \<longleftrightarrow> v = NaN"
  by (cases v) simp_all


lemma wide_target_values:
  "return_target wide_assets wide_covar t [1 / 2, 1 / 2] = Inr (13 / 2 - t)"
  "return_target wide_assets wide_covar t [1, 0] = Inr (12 - t)"
  "return_target wide_assets wide_covar t [0, 1] = Inr (1 - t)"
  by (simp_all add: return_target_def wide_returns)

lemma wide_frontier_feasible:
  "filter (feasible (replicate (length wide_assets) (0, 1))
             [return_target wide_assets wide_covar (13 / 2), budget]) ([1 / 2, 1 / 2] # corners)
     = [[1 / 2, 1 / 2]]"
  "filter (feasible (replicate (length wide_assets) (0, 1))
             [return_target wide_assets wide_covar (129 / 19), budget]) ([1 / 2, 1 / 2] # corners)
     = []"
  by (simp_all add: feasible_def budget_def corners_def wide_assets_guess(2) numeral_2_eq_2
      wide_target_values)

lemma wide_frontier_solves:
  "efficient_frontier (candidate_solver corners) wide_assets wide_covar (13 / 2) (0, 1) =
     Inr \<lparr> res_x = [1 / 2, 1 / 2], res_success = True,
           res_message = ''Optimization terminated successfully'',
           res_fun = Fin 5 \<rparr>"
  "efficient_frontier (candidate_solver corners) wide_assets wide_covar (129 / 19) (0, 1) =
     Inr \<lparr> res_x = [1 / 2, 1 / 2], res_success = False,
           res_message = ''Positive directional derivative for linesearch'',
           res_fun = Fin 5 \<rparr>"
  unfolding efficient_frontier_call[OF wide_assets_guess(1)] wide_assets_guess(3)
    candidate_solver_found[OF wide_frontier_feasible(1)]
    candidate_solver_none[OF wide_frontier_feasible(2)]
  by (simp_all add: wide_vol_values)


text \<open>
  Claim C6.  For the \<open>i\<close>-th sampled target return, the frontier records the solver's
  minimized objective when the solve converged and \<open>nan\<close>, which is no number, when it did
  not.  The chart has one abscissa per target; it is \<open>None\<close>, which the plotting library
  leaves out, exactly where the recorded volatility is \<open>nan\<close>, and the rounded percentage
  of the recorded volatility otherwise.
\<close>

theorem frontier_infeasible_sentinel:
  assumes "calculated_result m mu C rf cs = Inr r"
    and "i < 20"
    and "efficient_frontier m mu C (out_target_returns r ! i) cs = Inr sol"
  shows "(res_success sol \<longrightarrow> out_ef_vols r ! i = res_fun sol) \<and>
         (\<not> res_success sol \<longrightarrow> out_ef_vols r ! i = NaN \<and> (\<forall>v. out_ef_vols r ! i \<noteq> Fin v)) \<and>
         (\<exists>fig. ef_graph m mu C rf cs = Inr fig \<and>
            length (ef_curve_x fig) = 20 \<and> length (ef_curve_y fig) = 20 \<and>
            ef_curve_y fig ! i = round2 (out_target_returns r ! i * 100) \<and>
            (\<not> res_success sol \<longrightarrow> ef_curve_x fig ! i = None) \<and>
            (res_success sol \<and> res_fun sol \<noteq> NaN \<longrightarrow>
               ef_curve_x fig ! i = Some (f_round2 (f_mult (res_fun sol) (Fin 100)))) \<and>
            (\<forall>j<20. ef_curve_x fig ! j = None \<longleftrightarrow> out_ef_vols r ! j = NaN))"
proof -
  from assms(1) obtain rm ro vols where
    ne: "mu \<noteq> []"
    and fl: "frontier_loop m mu C cs (linspace rm ro 20) [] = Inr vols"
    and r: "out_ef_vols r = vols" "out_target_returns r = linspace rm ro 20"
    by (rule calculated_result_Inr) simp
  let ?sol = "\<lambda>t. m (\<lambda>w. portfolio_var w mu C) (replicate (length mu) (1 / real (length mu)))
                      (replicate (length mu) cs) [return_target mu C t, budget]"
  have vols: "vols = map (\<lambda>t. if res_success (?sol t) then res_fun (?sol t) else NaN)
                        (linspace rm ro 20)"
    using fl frontier_loop_map[OF ne, of m C cs "linspace rm ro 20" "[]"] by (simp add: Let_def)
  have sol: "sol = ?sol (out_target_returns r ! i)"
    using assms(3) efficient_frontier_call[OF ne, of m C "out_target_returns r ! i" cs] by simp
  have entry: "out_ef_vols r ! i = (if res_success sol then res_fun sol else NaN)"
    using r vols sol assms(2) by (simp add: length_linspace)
  have lens: "length (out_ef_vols r) = 20" "length (out_target_returns r) = 20"
    using r vols by (simp_all add: length_linspace)
  let ?fig = "\<lparr> max_sharpe_point = (out_opt_std r, out_opt_return r),
           min_vol_point = (out_minimal_std r, out_minimal_return r),
           ef_curve_x = map (\<lambda>vol. if \<not> f_isnan vol then Some (f_round2 (f_mult vol (Fin 100)))
                                   else None) (out_ef_vols r),
           ef_curve_y = map (\<lambda>ret. round2 (ret * 100)) (out_target_returns r) \<rparr>"
  have fig: "ef_graph m mu C rf cs = Inr ?fig"
    using assms(1) by (rule ef_graph_Inr)
  have a: "res_success sol \<longrightarrow> out_ef_vols r ! i = res_fun sol"
    using entry by simp
  have b: "\<not> res_success sol \<longrightarrow> out_ef_vols r ! i = NaN \<and> (\<forall>v. out_ef_vols r ! i \<noteq> Fin v)"
    using entry by simp
  have c1: "length (ef_curve_x ?fig) = 20" "length (ef_curve_y ?fig) = 20"
    using lens by simp_all
  have c2: "ef_curve_y ?fig ! i = round2 (out_target_returns r ! i * 100)"
    using lens assms(2) by simp
  have c3: "\<not> res_success sol \<longrightarrow> ef_curve_x ?fig ! i = None"
    using lens assms(2) entry by simp
  have c4: "res_success sol \<and> res_fun sol \<noteq> NaN \<longrightarrow>
               ef_curve_x ?fig ! i = Some (f_round2 (f_mult (res_fun sol) (Fin 100)))"
    using lens assms(2) entry by (simp add: f_isnan_iff)
  have c5: "\<forall>j<20. ef_curve_x ?fig ! j = None \<longleftrightarrow> out_ef_vols r ! j = NaN"
    using lens by (simp add: f_isnan_iff)
  from fig c1 c2 c3 c4 c5 have
    "\<exists>fig. ef_graph m mu C rf cs = Inr fig \<and>
            length (ef_curve_x fig) = 20 \<and> length (ef_curve_y fig) = 20 \<and>
            ef_curve_y fig ! i = round2 (out_target_returns r ! i * 100) \<and>
            (\<not> res_success sol \<longrightarrow> ef_curve_x fig ! i = None) \<and>
            (res_success sol \<and> res_fun sol \<noteq> NaN \<longrightarrow>
               ef_curve_x fig ! i = Some (f_round2 (f_mult (res_fun sol) (Fin 100)))) \<and>
            (\<forall>j<20. ef_curve_x fig ! j = None \<longleftrightarrow> out_ef_vols r ! j = NaN)"
    by blast
  with a b show ?thesis by blast
qed


theorem frontier_infeasible_sentinel_witness:
  "\<exists>r fig. calculated_result (candidate_solver corners) wide_assets wide_covar (1 / 50) (0, 1) = Inr r \<and>
       ef_graph (candidate_solver corners) wide_assets wide_covar (1 / 50) (0, 1) = Inr fig \<and>
       out_target_returns r ! 0 = 13 / 2 \<and> out_ef_vols r ! 0 = Fin 5 \<and>
       ef_curve_x fig ! 0 = Some (Fin 500) \<and>
       out_target_returns r ! 1 = 129 / 19 \<and> out_ef_vols r ! 1 = NaN \<and>
       ef_curve_x fig ! 1 = None"
proof -
  obtain r where
    r: "calculated_result (candidate_solver corners) wide_assets wide_covar (1 / 50) (0, 1) = Inr r"
    and t: "out_target_returns r = linspace (13 / 2) 12 20"
    using wide_result by simp
  have t0: "out_target_returns r ! 0 = 13 / 2" and t1: "out_target_returns r ! 1 = 129 / 19"
    using nth_linspace[of 0 20 "13 / 2" 12] nth_linspace[of 1 20 "13 / 2" 12] t by simp_all
  have round: "round2 500 = 500"
    by (simp add: round2_def round_half_even_def)
  note s0 = frontier_infeasible_sentinel[OF r, of 0, unfolded t0, OF _ wide_frontier_solves(1)]
  note s1 = frontier_infeasible_sentinel[OF r, of 1, unfolded t1, OF _ wide_frontier_solves(2)]
  from s0 s1 obtain fig where
    "ef_graph (candidate_solver corners) wide_assets wide_covar (1 / 50) (0, 1) = Inr fig"
    "out_ef_vols r ! 0 = Fin 5" "ef_curve_x fig ! 0 = Some (Fin 500)"
    "out_ef_vols r ! 1 = NaN" "ef_curve_x fig ! 1 = None"
    by (auto simp: round)
  with r t0 t1 show ?thesis by blast
qed

section \<open>Result aggregation and display\<close>

lemma round_half_even_bounds:
  "\<bar>real_of_int (round_half_even v) - v\<bar> \<le> 1 / 2"
  unfolding round_half_even_def Let_def by (auto; linarith)

lemma round2_props: "round2 v * 100 \<in> \<int>" "\<bar>round2 v - v\<bar> \<le> 1 / 200"
proof -
  show "round2 v * 100 \<in> \<int>" by (simp add: round2_def)
  have "\<bar>real_of_int (round_half_even (v * 100)) - v * 100\<bar> \<le> 1 / 2"
    by (rule round_half_even_bounds)
  then show "\<bar>round2 v - v\<bar> \<le> 1 / 200"
    unfolding round2_def by (simp add: field_simps abs_if split: if_splits)
qed

lemma percent_table_zip:
  "percent_table (zip names ws) = zip names (map (\<lambda>w. round2 (w * 100)) ws)"
  unfolding percent_table_def
  by (induction names ws rule: list_induct2') simp_all

lemma run_app_Results:
  assumes "run_app reader m inp = Results res"
  obtains mu C r fig where
    "run_clicked inp" "2 \<le> length (parse_tickers (raw_tickers inp))"
    "lower_bound inp < upper_bound inp"
    "get_data reader (parse_tickers (raw_tickers inp)) (start_date inp) (end_date inp) = Inr (mu, C)"
    "calculated_result m mu C (risk_free_rate inp) (lower_bound inp, upper_bound inp) = Inr r"
    "ef_graph m mu C (risk_free_rate inp) (lower_bound inp, upper_bound inp) = Inr fig"
    "res = \<lparr> metric_opt_return = out_opt_return r, metric_opt_std = out_opt_std r,
             metric_min_return = out_minimal_return r, metric_min_std = out_minimal_std r,
             chart = fig,
             display_opt = percent_table (out_optimal_allocation r),
             display_min = percent_table (out_minimal_allocation r) \<rparr>"
  using assms unfolding run_app_def Let_def
  by (auto split: if_splits sum.splits prod.splits)

lemma run_app_success:
  assumes "run_clicked inp" "2 \<le> length (parse_tickers (raw_tickers inp))"
    "lower_bound inp < upper_bound inp"
    "get_data reader (parse_tickers (raw_tickers inp)) (start_date inp) (end_date inp) = Inr (mu, C)"
    "calculated_result m mu C (risk_free_rate inp) (lower_bound inp, upper_bound inp) = Inr r"
  shows "\<exists>fig. run_app reader m inp =
     Results \<lparr> metric_opt_return = out_opt_return r, metric_opt_std = out_opt_std r,
             metric_min_return = out_minimal_return r, metric_min_std = out_minimal_std r,
             chart = fig,
             display_opt = percent_table (out_optimal_allocation r),
             display_min = percent_table (out_minimal_allocation r) \<rparr>"
  using assms ef_graph_Inr[OF assms(5)] unfolding run_app_def Let_def
  by (simp add: not_less[symmetric])


lemma sample_form_fields:
  "run_clicked sample_form" "raw_tickers sample_form = ''a, b''"
  "start_date sample_form = 0" "end_date sample_form = 365"
  "risk_free_rate sample_form = 1 / 50"
  "lower_bound sample_form = 0" "upper_bound sample_form = 1"
  by (simp_all add: sample_form_def)

lemma sample_tickers: "parse_tickers ''a, b'' = [''A'', ''B'']"
  by code_simp

lemma sample_get_data:
  "get_data (fixed_reader stats) [''A'', ''B''] 0 365 = Inr stats"
  by (simp add: get_data_def fixed_reader_def)

lemma round2_samples:
  "round2 1200 = 1200" "round2 650 = 650" "round2 600 = 600" "round2 500 = 500"
  "round2 100 = 100" "round2 50 = 50" "round2 0 = 0"
  by (simp_all add: round2_def round_half_even_def)


text \<open>
  Claim C7.  On a run that shows results, the four headline metrics are the annualized
  returns and volatilities of the two named portfolios times 100, rounded to two decimals
  (an integer number of hundredths, at most half a hundredth from the unrounded
  percentage).  \<open>calculated_result\<close> hands over each allocation table as the asset labels
  paired with the raw weights; the page shows each table with every weight times 100,
  rounded to two decimals, one row per asset.
\<close>

theorem aggregator_percentages:
  assumes "run_app reader m inp = Results res"
    and "get_data reader (parse_tickers (raw_tickers inp)) (start_date inp) (end_date inp)
           = Inr (mu, C)"
    and "max_sharpe_ratio m mu C (risk_free_rate inp) (lower_bound inp, upper_bound inp) = Inr msr"
    and "min_portfolio_var m mu C (lower_bound inp, upper_bound inp) = Inr mvr"
    and "port_performance (res_x msr) mu C = Inr (ret_o, std_o)"
    and "port_performance (res_x mvr) mu C = Inr (ret_m, std_m)"
  shows "\<exists>r. calculated_result m mu C (risk_free_rate inp) (lower_bound inp, upper_bound inp) = Inr r \<and>
     out_opt_return r = round2 (ret_o * 100) \<and> out_minimal_return r = round2 (ret_m * 100) \<and>
     out_opt_std r = f_round2 (f_mult std_o (Fin 100)) \<and>
     out_minimal_std r = f_round2 (f_mult std_m (Fin 100)) \<and>
     (\<forall>v. std_o = Fin v \<longrightarrow> out_opt_std r = Fin (round2 (v * 100))) \<and>
     (\<forall>v. std_m = Fin v \<longrightarrow> out_minimal_std r = Fin (round2 (v * 100))) \<and>
     out_optimal_allocation r = zip (map fst mu) (res_x msr) \<and>
     out_minimal_allocation r = zip (map fst mu) (res_x mvr) \<and>
     metric_opt_return res = out_opt_return r \<and> metric_opt_std res = out_opt_std r \<and>
     metric_min_return res = out_minimal_return r \<and> metric_min_std res = out_minimal_std r \<and>
     display_opt res = zip (map fst mu) (map (\<lambda>w. round2 (w * 100)) (res_x msr)) \<and>
     display_min res = zip (map fst mu) (map (\<lambda>w. round2 (w * 100)) (res_x mvr)) \<and>
     length (display_opt res) = length mu \<and> length (display_min res) = length mu \<and>
     (\<forall>v. round2 v * 100 \<in> \<int> \<and> \<bar>round2 v - v\<bar> \<le> 1 / 200)"
proof -
  from assms(1) obtain mu' C' r where
    gd: "get_data reader (parse_tickers (raw_tickers inp)) (start_date inp) (end_date inp)
           = Inr (mu', C')"
    and cr': "calculated_result m mu' C' (risk_free_rate inp) (lower_bound inp, upper_bound inp)
           = Inr r"
    and res: "res = \<lparr> metric_opt_return = out_opt_return r, metric_opt_std = out_opt_std r,
             metric_min_return = out_minimal_return r, metric_min_std = out_minimal_std r,
             chart = chart res,
             display_opt = percent_table (out_optimal_allocation r),
             display_min = percent_table (out_minimal_allocation r) \<rparr>"
    by (rule run_app_Results) simp
  from gd assms(2) have "mu' = mu" "C' = C" by simp_all
  with cr' have cr: "calculated_result m mu C (risk_free_rate inp)
                       (lower_bound inp, upper_bound inp) = Inr r" by simp
  from cr obtain msr' mvr' ro so rm sm where
    ms: "max_sharpe_ratio m mu C (risk_free_rate inp) (lower_bound inp, upper_bound inp) = Inr msr'"
    and mv: "min_portfolio_var m mu C (lower_bound inp, upper_bound inp) = Inr mvr'"
    and po: "port_performance (res_x msr') mu C = Inr (ro, so)"
    and pm: "port_performance (res_x mvr') mu C = Inr (rm, sm)"
    and r: "out_opt_return r = round2 (ro * 100)" "out_opt_std r = f_round2 (f_mult so (Fin 100))"
      "out_optimal_allocation r = zip (map fst mu) (res_x msr')"
      "out_minimal_return r = round2 (rm * 100)"
      "out_minimal_std r = f_round2 (f_mult sm (Fin 100))"
      "out_minimal_allocation r = zip (map fst mu) (res_x mvr')"
    by (rule calculated_result_Inr) simp
  have same: "msr' = msr" "mvr' = mvr" using ms mv assms(3,4) by simp_all
  then have vals: "ro = ret_o" "so = std_o" "rm = ret_m" "sm = std_m"
    using po pm assms(5,6) by simp_all
  have lo: "length (res_x msr) = length mu" and lm: "length (res_x mvr) = length mu"
    using assms(5,6) by (auto simp: port_performance_def shapes_agree_def split: if_splits)
  have m1: "out_opt_return r = round2 (ret_o * 100)" "out_minimal_return r = round2 (ret_m * 100)"
    "out_opt_std r = f_round2 (f_mult std_o (Fin 100))"
    "out_minimal_std r = f_round2 (f_mult std_m (Fin 100))"
    using r vals by simp_all
  have m2: "\<forall>v. std_o = Fin v \<longrightarrow> out_opt_std r = Fin (round2 (v * 100))"
    "\<forall>v. std_m = Fin v \<longrightarrow> out_minimal_std r = Fin (round2 (v * 100))"
    using m1 by simp_all
  have al: "out_optimal_allocation r = zip (map fst mu) (res_x msr)"
    "out_minimal_allocation r = zip (map fst mu) (res_x mvr)"
    using r same by simp_all
  have me: "metric_opt_return res = out_opt_return r" "metric_opt_std res = out_opt_std r"
    "metric_min_return res = out_minimal_return r" "metric_min_std res = out_minimal_std r"
    by (subst res, simp)+
  have "display_opt res = percent_table (out_optimal_allocation r)"
    "display_min res = percent_table (out_minimal_allocation r)"
    by (subst res, simp)+
  then have di: "display_opt res = zip (map fst mu) (map (\<lambda>w. round2 (w * 100)) (res_x msr))"
    "display_min res = zip (map fst mu) (map (\<lambda>w. round2 (w * 100)) (res_x mvr))"
    using al by (simp_all add: percent_table_zip)
  have le: "length (display_opt res) = length mu" "length (display_min res) = length mu"
    using di lo lm by simp_all
  have ro2: "\<forall>v. round2 v * 100 \<in> \<int> \<and> \<bar>round2 v - v\<bar> \<le> 1 / 200"
    using round2_props by blast
  from cr m1 m2 al me di le ro2 show ?thesis by blast
qed

theorem aggregator_percentages_witness:
  "\<exists>res. run_app (fixed_reader (wide_assets, wide_covar)) (candidate_solver corners) sample_form
            = Results res \<and>
         metric_opt_return res = 1200 \<and> metric_opt_std res = Fin 600 \<and>
         metric_min_return res = 650 \<and> metric_min_std res = Fin 500 \<and>
         display_opt res = [(''A'', 100), (''B'', 0)] \<and>
         display_min res = [(''A'', 50), (''B'', 50)]"
proof -
  let ?reader = "fixed_reader (wide_assets, wide_covar)" and ?m = "candidate_solver corners"
  let ?msr = "\<lparr> res_x = [1, 0], res_success = True,
                res_message = ''Optimization terminated successfully'',
                res_fun = Fin (- (599 / 300)) \<rparr>"
  let ?mvr = "\<lparr> res_x = [1 / 2, 1 / 2], res_success = True,
                res_message = ''Optimization terminated successfully'',
                res_fun = Fin 5 \<rparr>"
  have gd: "get_data ?reader (parse_tickers (raw_tickers sample_form)) (start_date sample_form)
              (end_date sample_form) = Inr (wide_assets, wide_covar)"
    by (simp add: sample_form_fields sample_tickers sample_get_data)
  obtain r where r: "calculated_result ?m wide_assets wide_covar (risk_free_rate sample_form)
                       (lower_bound sample_form, upper_bound sample_form) = Inr r"
    using wide_result by (simp add: sample_form_fields)
  have "2 \<le> length (parse_tickers (raw_tickers sample_form))"
    by (simp add: sample_form_fields sample_tickers)
  moreover have "lower_bound sample_form < upper_bound sample_form"
    by (simp add: sample_form_fields)
  ultimately obtain res where run: "run_app ?reader ?m sample_form = Results res"
    using run_app_success[OF sample_form_fields(1) _ _ gd r] by blast
  have ms: "max_sharpe_ratio ?m wide_assets wide_covar (risk_free_rate sample_form)
              (lower_bound sample_form, upper_bound sample_form) = Inr ?msr"
    and mv: "min_portfolio_var ?m wide_assets wide_covar
              (lower_bound sample_form, upper_bound sample_form) = Inr ?mvr"
    by (simp_all add: sample_form_fields wide_max_sharpe wide_min_vol)
  have po: "port_performance (res_x ?msr) wide_assets wide_covar = Inr (12, Fin 6)"
    and pm: "port_performance (res_x ?mvr) wide_assets wide_covar = Inr (13 / 2, Fin 5)"
    by (simp_all add: wide_performance)
  from aggregator_percentages[OF run gd ms mv po pm]
  have "metric_opt_return res = 1200 \<and> metric_opt_std res = Fin 600 \<and>
        metric_min_return res = 650 \<and> metric_min_std res = Fin 500 \<and>
        display_opt res = [(''A'', 100), (''B'', 0)] \<and>
        display_min res = [(''A'', 50), (''B'', 50)]"
    by (auto simp: round2_samples wide_assets_def)
  with run show ?thesis by blast
qed

section \<open>The risk-free rate and the Minimum Volatility portfolio\<close>

lemma port_performance_Inl: "port_performance w mu C = Inl e \<Longrightarrow> e = ShapeMismatch"
  by (auto simp: port_performance_def Let_def split: if_splits)

lemma calculated_result_min_vol_error:
  assumes "calculated_result m mu C rf cs =
             Inl (ValueError (''Min volatility optimization failed: '' @ msg))"
  obtains msr mvr where "mu \<noteq> []"
    "max_sharpe_ratio m mu C rf cs = Inr msr" "min_portfolio_var m mu C cs = Inr mvr"
    "res_success msr" "\<not> res_success mvr" "msg = res_message mvr"
proof -
  from assms have ne: "mu \<noteq> []"
    by (auto simp: calculated_result_def max_sharpe_ratio_def Let_def split: if_splits)
  let ?msr = "m (\<lambda>w. negative_sharpe w mu C rf) (replicate (length mu) (1 / real (length mu)))
                (replicate (length mu) cs) [budget]"
  let ?mvr = "m (\<lambda>w. portfolio_var w mu C) (replicate (length mu) (1 / real (length mu)))
                (replicate (length mu) cs) [budget]"
  note calls = max_sharpe_ratio_call[OF ne, of m C rf cs] min_portfolio_var_call[OF ne, of m C cs]
  have s1: "res_success ?msr"
  proof (rule ccontr)
    assume "\<not> res_success ?msr"
    then have "calculated_result m mu C rf cs =
                 Inl (ValueError (''Max Sharpe optimization failed: '' @ res_message ?msr))"
      by (simp add: calculated_result_def calls)
    with assms show False by simp
  qed
  have s2: "\<not> res_success ?mvr"
  proof
    assume ok: "res_success ?mvr"
    show False
    proof (cases "port_performance (res_x ?msr) mu C")
      case (Inl e)
      then have "calculated_result m mu C rf cs = Inl ShapeMismatch"
        using s1 ok port_performance_Inl[OF Inl] by (simp add: calculated_result_def calls)
      with assms show False by simp
    next
      case (Inr a)
      note pa = this
      show False
      proof (cases "port_performance (res_x ?mvr) mu C")
        case (Inl e)
        then have "calculated_result m mu C rf cs = Inl ShapeMismatch"
          using s1 ok pa port_performance_Inl[OF Inl]
          by (simp add: calculated_result_def calls split: prod.splits)
        with assms show False by simp
      next
        case (Inr b)
        obtain ro so rm sm where "a = (ro, so)" "b = (rm, sm)"
          by (cases a, cases b) auto
        then have "\<exists>r. calculated_result m mu C rf cs = Inr r"
          using calculated_result_success[OF ne calls s1 ok, of ro so rm sm] pa Inr by simp
        with assms show False by auto
      qed
    qed
  qed
  have "calculated_result m mu C rf cs =
          Inl (ValueError (''Min volatility optimization failed: '' @ res_message ?mvr))"
    using s1 s2 by (simp add: calculated_result_def calls)
  with assms have "msg = res_message ?mvr" by simp
  with ne calls s1 s2 show thesis by (rule that)
qed


lemma wide_sharpe_values_zero:
  "value_at (\<lambda>w. negative_sharpe w wide_assets wide_covar 0) [1 / 2, 1 / 2] = Fin (- (13 / 10))"
  "value_at (\<lambda>w. negative_sharpe w wide_assets wide_covar 0) [1, 0] = Fin (- 2)"
  "value_at (\<lambda>w. negative_sharpe w wide_assets wide_covar 0) [0, 1] = Fin (- (1 / 8))"
  by (simp_all add: value_at_def negative_sharpe_def wide_performance)

lemma wide_max_sharpe_zero:
  "max_sharpe_ratio (candidate_solver corners) wide_assets wide_covar 0 (0, 1) =
     Inr \<lparr> res_x = [1, 0], res_success = True,
           res_message = ''Optimization terminated successfully'',
           res_fun = Fin (- 2) \<rparr>"
  unfolding max_sharpe_ratio_call[OF wide_assets_guess(1)] wide_assets_guess(3)
    candidate_solver_found[OF wide_feasible]
  by (simp add: wide_sharpe_values_zero)

lemma wide_result_zero:
  "\<exists>r. calculated_result (candidate_solver corners) wide_assets wide_covar 0 (0, 1) = Inr r"
proof -
  let ?msr = "\<lparr> res_x = [1, 0], res_success = True,
                res_message = ''Optimization terminated successfully'',
                res_fun = Fin (- 2) \<rparr>"
  let ?mvr = "\<lparr> res_x = [1 / 2, 1 / 2], res_success = True,
                res_message = ''Optimization terminated successfully'',
                res_fun = Fin 5 \<rparr>"
  have ok: "res_success ?msr" "res_success ?mvr" by simp_all
  have po: "port_performance (res_x ?msr) wide_assets wide_covar = Inr (12, Fin 6)"
    by (simp add: wide_performance)
  have pm: "port_performance (res_x ?mvr) wide_assets wide_covar = Inr (13 / 2, Fin 5)"
    by (simp add: wide_performance)
  show ?thesis
    using calculated_result_success[OF wide_assets_guess(1) wide_max_sharpe_zero wide_min_vol
        ok po pm]
    by blast
qed

lemma negative_sharpe_half_high:
  "negative_sharpe [1 / 2, 1 / 2] two_assets two_covar 2 = Inr (Fin (1 / 2 / sqrt 2))"
  using sqrt2_not_close by (simp add: negative_sharpe_def port_performance_half)

lemma stay_failures:
  "calculated_result (stay_solver neg_only) two_assets two_covar (1 / 50) (0, 1) =
     Inl (ValueError ''Min volatility optimization failed: Iteration limit reached'')"
  "calculated_result (stay_solver neg_only) two_assets two_covar 2 (0, 1) =
     Inl (ValueError ''Max Sharpe optimization failed: Iteration limit reached'')"
  by (simp_all add: calculated_result_def max_sharpe_ratio_call[OF two_assets_guess(1)]
      min_portfolio_var_call[OF two_assets_guess(1)] stay_solver_def two_assets_guess(2)
      negative_sharpe_half negative_sharpe_half_high portfolio_var_half neg_only_def)


text \<open>
  Claim C8.  \<open>min_portfolio_var\<close> takes no risk-free rate, and \<open>calculated_result\<close> calls
  it on the statistics and bounds alone.  So for two risk-free rates on the same statistics,
  bounds and solver: two successful runs report the same Minimum Volatility return,
  volatility and allocation, each computed from the one Minimum Volatility solve; and a run
  that fails because the Minimum Volatility solve did not converge is matched, at the other
  rate, by the same failure with the same message, unless the Maximum Sharpe solve, which
  is checked first, fails there.
\<close>

theorem min_vol_independent_of_risk_free_rate:
  "(\<forall>r1 r2. calculated_result m mu C rf1 cs = Inr r1 \<and> calculated_result m mu C rf2 cs = Inr r2 \<longrightarrow>
      out_minimal_return r1 = out_minimal_return r2 \<and>
      out_minimal_std r1 = out_minimal_std r2 \<and>
      out_minimal_allocation r1 = out_minimal_allocation r2) \<and>
   (\<forall>r1. calculated_result m mu C rf1 cs = Inr r1 \<longrightarrow>
      (\<exists>mvr ret sd. min_portfolio_var m mu C cs = Inr mvr \<and> res_success mvr \<and>
         port_performance (res_x mvr) mu C = Inr (ret, sd) \<and>
         out_minimal_allocation r1 = zip (map fst mu) (res_x mvr) \<and>
         out_minimal_return r1 = round2 (ret * 100) \<and>
         out_minimal_std r1 = f_round2 (f_mult sd (Fin 100)))) \<and>
   (\<forall>msg. calculated_result m mu C rf1 cs =
            Inl (ValueError (''Min volatility optimization failed: '' @ msg)) \<longrightarrow>
      calculated_result m mu C rf2 cs =
            Inl (ValueError (''Min volatility optimization failed: '' @ msg)) \<or>
      (\<exists>msg'. calculated_result m mu C rf2 cs =
            Inl (ValueError (''Max Sharpe optimization failed: '' @ msg'))))"
proof -
  have out: "\<exists>mvr ret sd. min_portfolio_var m mu C cs = Inr mvr \<and> res_success mvr \<and>
         port_performance (res_x mvr) mu C = Inr (ret, sd) \<and>
         out_minimal_allocation r = zip (map fst mu) (res_x mvr) \<and>
         out_minimal_return r = round2 (ret * 100) \<and>
         out_minimal_std r = f_round2 (f_mult sd (Fin 100))"
    if "calculated_result m mu C rf cs = Inr r" for rf r
  proof -
    from that obtain mvr rm sm where
      "min_portfolio_var m mu C cs = Inr mvr" "res_success mvr"
      "port_performance (res_x mvr) mu C = Inr (rm, sm)"
      "out_minimal_return r = round2 (rm * 100)"
      "out_minimal_std r = f_round2 (f_mult sm (Fin 100))"
      "out_minimal_allocation r = zip (map fst mu) (res_x mvr)"
      by (rule calculated_result_Inr) simp
    then show ?thesis by blast
  qed
  have a: "\<forall>r1 r2. calculated_result m mu C rf1 cs = Inr r1 \<and>
                   calculated_result m mu C rf2 cs = Inr r2 \<longrightarrow>
      out_minimal_return r1 = out_minimal_return r2 \<and>
      out_minimal_std r1 = out_minimal_std r2 \<and>
      out_minimal_allocation r1 = out_minimal_allocation r2"
  proof (intro allI impI)
    fix r1 r2
    assume h: "calculated_result m mu C rf1 cs = Inr r1 \<and> calculated_result m mu C rf2 cs = Inr r2"
    from out[of rf1 r1] out[of rf2 r2] h
    show "out_minimal_return r1 = out_minimal_return r2 \<and>
          out_minimal_std r1 = out_minimal_std r2 \<and>
          out_minimal_allocation r1 = out_minimal_allocation r2"
      by auto
  qed
  have b: "\<forall>r1. calculated_result m mu C rf1 cs = Inr r1 \<longrightarrow>
      (\<exists>mvr ret sd. min_portfolio_var m mu C cs = Inr mvr \<and> res_success mvr \<and>
         port_performance (res_x mvr) mu C = Inr (ret, sd) \<and>
         out_minimal_allocation r1 = zip (map fst mu) (res_x mvr) \<and>
         out_minimal_return r1 = round2 (ret * 100) \<and>
         out_minimal_std r1 = f_round2 (f_mult sd (Fin 100)))"
    using out by blast
  have c: "\<forall>msg. calculated_result m mu C rf1 cs =
            Inl (ValueError (''Min volatility optimization failed: '' @ msg)) \<longrightarrow>
      calculated_result m mu C rf2 cs =
            Inl (ValueError (''Min volatility optimization failed: '' @ msg)) \<or>
      (\<exists>msg'. calculated_result m mu C rf2 cs =
            Inl (ValueError (''Max Sharpe optimization failed: '' @ msg')))"
  proof (intro allI impI)
    fix msg
    assume "calculated_result m mu C rf1 cs =
              Inl (ValueError (''Min volatility optimization failed: '' @ msg))"
    then obtain mvr where ne: "mu \<noteq> []" and mv: "min_portfolio_var m mu C cs = Inr mvr"
      and bad: "\<not> res_success mvr" and msg: "msg = res_message mvr"
      by (rule calculated_result_min_vol_error)
    show "calculated_result m mu C rf2 cs =
            Inl (ValueError (''Min volatility optimization failed: '' @ msg)) \<or>
          (\<exists>msg'. calculated_result m mu C rf2 cs =
            Inl (ValueError (''Max Sharpe optimization failed: '' @ msg')))"
      using mv bad msg max_sharpe_ratio_call[OF ne, of m C rf2 cs]
      by (simp add: calculated_result_def)
  qed
  from a b c show ?thesis by blast
qed

theorem min_vol_independent_of_risk_free_rate_witness:
  "(\<exists>r1 r2.
      calculated_result (candidate_solver corners) wide_assets wide_covar (1 / 50) (0, 1) = Inr r1 \<and>
      calculated_result (candidate_solver corners) wide_assets wide_covar 0 (0, 1) = Inr r2 \<and>
      out_minimal_return r1 = 650 \<and> out_minimal_return r2 = 650 \<and>
      out_minimal_std r1 = Fin 500 \<and> out_minimal_std r2 = Fin 500 \<and>
      out_minimal_allocation r1 = [(''A'', 1 / 2), (''B'', 1 / 2)] \<and>
      out_minimal_allocation r2 = [(''A'', 1 / 2), (''B'', 1 / 2)]) \<and>
   calculated_result (stay_solver neg_only) two_assets two_covar (1 / 50) (0, 1) =
     Inl (ValueError ''Min volatility optimization failed: Iteration limit reached'') \<and>
   calculated_result (stay_solver neg_only) two_assets two_covar 2 (0, 1) =
     Inl (ValueError ''Max Sharpe optimization failed: Iteration limit reached'')"
proof -
  obtain r1 where r1:
    "calculated_result (candidate_solver corners) wide_assets wide_covar (1 / 50) (0, 1) = Inr r1"
    and v1: "out_minimal_return r1 = round2 (13 / 2 * 100)"
      "out_minimal_std r1 = f_round2 (f_mult (Fin 5) (Fin 100))"
      "out_minimal_allocation r1 = zip (map fst wide_assets) [1 / 2, 1 / 2]"
    using wide_result by simp
  obtain r2 where r2:
    "calculated_result (candidate_solver corners) wide_assets wide_covar 0 (0, 1) = Inr r2"
    using wide_result_zero by blast
  have round: "round2 650 = 650" "round2 500 = 500"
    by (simp_all add: round2_def round_half_even_def)
  from min_vol_independent_of_risk_free_rate
    [of "candidate_solver corners" wide_assets wide_covar "1 / 50" "(0, 1)" 0] r1 r2
  have eq: "out_minimal_return r1 = out_minimal_return r2"
    "out_minimal_std r1 = out_minimal_std r2"
    "out_minimal_allocation r1 = out_minimal_allocation r2"
    by blast+
  have c1: "out_minimal_return r1 = 650" "out_minimal_std r1 = Fin 500"
    "out_minimal_allocation r1 = [(''A'', 1 / 2), (''B'', 1 / 2)]"
    using v1 by (simp_all add: round wide_assets_def)
  with eq have c2: "out_minimal_return r2 = 650" "out_minimal_std r2 = Fin 500"
    "out_minimal_allocation r2 = [(''A'', 1 / 2), (''B'', 1 / 2)]"
    by simp_all
  from r1 r2 c1 c2 stay_failures show ?thesis by blast
qed

section \<open>Input validation\<close>

lemma get_data_window:
  "stocks \<noteq> [] \<Longrightarrow> end \<le> start \<Longrightarrow>
   get_data reader stocks start end = Inl (ValueError ''Start date must be earlier than end date.'')"
  by (simp add: get_data_def)


lemma one_ticker: "parse_tickers ''msft'' = [''MSFT'']"
  by code_simp


text \<open>
  Claim C9.  When the run button is pressed with fewer than two tickers, with a lower bound
  not below the upper bound, or with a start date not earlier than the end date, the page
  shows the corresponding error.  The page is then the same whatever the solver and the
  data provider are, and it shows no results: the error is raised before either is
  called.  The first two checks are in the form; the window is checked by \<open>get_data\<close>
  before it reads any prices, and its message arrives behind the prefix of the page's
  exception handler.
\<close>

theorem input_errors_before_solver:
  assumes "run_clicked inp"
  shows "(length (parse_tickers (raw_tickers inp)) < 2 \<longrightarrow>
            run_app reader m inp = ErrorBox ''Please enter at least 2 tickers.'') \<and>
         (2 \<le> length (parse_tickers (raw_tickers inp)) \<and> upper_bound inp \<le> lower_bound inp \<longrightarrow>
            run_app reader m inp = ErrorBox ''Lower bound must be smaller than upper bound.'') \<and>
         (2 \<le> length (parse_tickers (raw_tickers inp)) \<and> lower_bound inp < upper_bound inp \<and>
          end_date inp \<le> start_date inp \<longrightarrow>
            run_app reader m inp =
              ErrorBox ''Optimization failed: Start date must be earlier than end date.'') \<and>
         (length (parse_tickers (raw_tickers inp)) < 2 \<or> upper_bound inp \<le> lower_bound inp \<or>
          end_date inp \<le> start_date inp \<longrightarrow>
            (\<forall>reader' m'. run_app reader' m' inp = run_app reader m inp) \<and>
            (\<forall>res. run_app reader m inp \<noteq> Results res))"
proof -
  let ?tickers = "parse_tickers (raw_tickers inp)"
  have a: "run_app rd sv inp = ErrorBox ''Please enter at least 2 tickers.''"
    if "length ?tickers < 2" for rd sv
    using assms that by (simp add: run_app_def Let_def)
  have b: "run_app rd sv inp = ErrorBox ''Lower bound must be smaller than upper bound.''"
    if "2 \<le> length ?tickers" "upper_bound inp \<le> lower_bound inp" for rd sv
    using assms that by (simp add: run_app_def Let_def)
  have c: "run_app rd sv inp =
             ErrorBox ''Optimization failed: Start date must be earlier than end date.''"
    if "2 \<le> length ?tickers" "lower_bound inp < upper_bound inp"
      "end_date inp \<le> start_date inp" for rd sv
  proof -
    from that(1) have "?tickers \<noteq> []" by auto
    then have "get_data rd ?tickers (start_date inp) (end_date inp) =
                 Inl (ValueError ''Start date must be earlier than end date.'')"
      using that(3) by (rule get_data_window)
    then show ?thesis
      using assms that by (simp add: run_app_def Let_def)
  qed
  have d: "(\<forall>reader' m'. run_app reader' m' inp = run_app reader m inp) \<and>
           (\<forall>res. run_app reader m inp \<noteq> Results res)"
    if "length ?tickers < 2 \<or> upper_bound inp \<le> lower_bound inp \<or>
        end_date inp \<le> start_date inp"
  proof (cases "length ?tickers < 2")
    case True
    then show ?thesis using a by simp
  next
    case False
    then have two: "2 \<le> length ?tickers" by simp
    show ?thesis
    proof (cases "upper_bound inp \<le> lower_bound inp")
      case True
      then show ?thesis using b[OF two] by simp
    next
      case False
      then have "lower_bound inp < upper_bound inp" "end_date inp \<le> start_date inp"
        using that two by auto
      then show ?thesis using c[OF two] by simp
    qed
  qed
  from a b c d show ?thesis by blast
qed


theorem input_errors_before_solver_witness:
  "run_app (fixed_reader (wide_assets, wide_covar)) (candidate_solver corners)
     (sample_form\<lparr>raw_tickers := ''msft''\<rparr>) = ErrorBox ''Please enter at least 2 tickers.'' \<and>
   run_app (fixed_reader (wide_assets, wide_covar)) (candidate_solver corners)
     (sample_form\<lparr>lower_bound := 1\<rparr>) = ErrorBox ''Lower bound must be smaller than upper bound.'' \<and>
   run_app (fixed_reader (wide_assets, wide_covar)) (candidate_solver corners)
     (sample_form\<lparr>start_date := 365\<rparr>) =
       ErrorBox ''Optimization failed: Start date must be earlier than end date.''"
proof -
  let ?rd = "fixed_reader (wide_assets, wide_covar)" and ?m = "candidate_solver corners"
  have f1: "run_clicked (sample_form\<lparr>raw_tickers := ''msft''\<rparr>)"
    and f2: "run_clicked (sample_form\<lparr>lower_bound := 1\<rparr>)"
    and f3: "run_clicked (sample_form\<lparr>start_date := 365\<rparr>)"
    by (simp_all add: sample_form_def)
  have a: "run_app ?rd ?m (sample_form\<lparr>raw_tickers := ''msft''\<rparr>) =
             ErrorBox ''Please enter at least 2 tickers.''"
    using input_errors_before_solver[OF f1, of ?rd ?m] by (simp add: one_ticker)
  have b: "run_app ?rd ?m (sample_form\<lparr>lower_bound := 1\<rparr>) =
             ErrorBox ''Lower bound must be smaller than upper bound.''"
    using input_errors_before_solver[OF f2, of ?rd ?m]
    by (simp add: sample_form_def sample_tickers)
  have c: "run_app ?rd ?m (sample_form\<lparr>start_date := 365\<rparr>) =
             ErrorBox ''Optimization failed: Start date must be earlier than end date.''"
    using input_errors_before_solver[OF f3, of ?rd ?m]
    by (simp add: sample_form_def sample_tickers)
  from a b c show ?thesis by simp
qed

section \<open>The ticker parser\<close>

subsection \<open>Splitting\<close>




subsection \<open>Stripping and upper-casing\<close>









subsection \<open>Keys in order of first occurrence\<close>
















end
